theory Spec2Isabelle
  imports Main
begin

section \<open>The role-assignment script \<^verbatim>\<open>add_user_to_apache_jira.py\<close>\<close>

text \<open>
  The script has one function, \<^verbatim>\<open>add_user_to_jira_role(user_to_add, project_key)\<close>.
  It reads the module constant \<^verbatim>\<open>JIRA_API_TOKEN\<close>, sends one GET, scans the returned
  mapping for the key \<^verbatim>\<open>Contributors\<close>, sends one POST, prints progress lines and
  returns a boolean.

  The model makes every effect a value:
  \<^item> what the function prints and sends is a list of events, in program order;
  \<^item> the tracker is a function from a request to what \<^verbatim>\<open>requests\<close> gives back for it;
  \<^item> the function's result is either the returned boolean or the exception that
    leaves the function uncaught.
\<close>

subsection \<open>Data\<close>

text \<open>
  What \<^verbatim>\<open>response.json()\<close> can return: any JSON value. Objects keep their entries in
  iteration order. Of a number the script observes only whether it is zero.
\<close>

datatype json =
    JNull
  | JBool bool
  | JNum int
  | JStr string
  | JArr "json list"
  | JObj "(string \<times> json) list"

type_synonym headers = "(string \<times> string) list"

text \<open>
  The two calls the script makes. The POST carries the value handed to
  \<^verbatim>\<open>json.dumps\<close>; its serialisation is the library's business.
\<close>

datatype request =
    GET string headers
  | POST string json headers

datatype event =
    Print string
  | Sent request

text \<open>
  The exceptions that can leave the function. \<^verbatim>\<open>HTTPError\<close> and every other
  \<^verbatim>\<open>RequestException\<close> are caught by the handlers of lines 63, 73, 90 and 98, which
  return False. No handler catches the others:
  \<^item> \<^verbatim>\<open>AttributeError\<close>, which Python raises for \<^verbatim>\<open>.items()\<close> on a value that is no dict
    and for \<^verbatim>\<open>.split\<close> on a value that is no string; it carries the name of the missing
    attribute;
  \<^item> \<^verbatim>\<open>RecursionError\<close> and \<^verbatim>\<open>ValueError\<close>, which the JSON decoder under
    \<^verbatim>\<open>response.json()\<close> raises for a body nested too deeply and for an integer with too
    many digits; they carry their message.
\<close>

datatype exn =
    AttributeError string
  | RecursionError string
  | ValueError string

text \<open>
  How \<^verbatim>\<open>response.json()\<close> fails: with \<^verbatim>\<open>requests.exceptions.JSONDecodeError\<close> for a body
  that is not JSON, which is a \<^verbatim>\<open>RequestException\<close> (requests 2.27 and later) and carries
  its message, or with an exception of the decoder that requests lets through.
\<close>

datatype json_error =
    JSONDecodeError string
  | OtherError exn

text \<open>
  A response object: \<^verbatim>\<open>status_code\<close>, \<^verbatim>\<open>reason\<close>, \<^verbatim>\<open>url\<close> (the URL the answer came
  from, as requests normalised it), \<^verbatim>\<open>text\<close>, and what \<^verbatim>\<open>.json()\<close> does: it returns the
  parsed body (\<open>Inr\<close>) or fails (\<open>Inl\<close>).
\<close>

record response =
  status_code :: nat
  reason :: string
  resp_url :: string
  resp_text :: string
  resp_json :: "json_error + json"

text \<open>
  What \<^verbatim>\<open>requests.get\<close> and \<^verbatim>\<open>requests.post\<close> do: raise a \<^verbatim>\<open>RequestException\<close> (connection
  refused, timeout, invalid URL or header) or return a response.
\<close>

datatype http_result =
    Failed string
  | Responded response

type_synonym network = "request \<Rightarrow> http_result"

text \<open>How a call of the function ends.\<close>

datatype outcome =
    Returned bool
  | Raised exn

text \<open>
  How the first \<^verbatim>\<open>try\<close> statement (lines 41 to 75) ends: with a \<^verbatim>\<open>return\<close>, with an
  exception no handler catches, or by falling through to line 78 with
  \<^verbatim>\<open>contributor_role_id\<close> set.
\<close>

datatype flow =
    Return bool
  | Raise exn
  | Fallthrough string

subsection \<open>Python primitives the script uses\<close>

definition sq :: "string \<Rightarrow> string" where
  \<comment> \<open>a value between single quotes, as in \<^verbatim>\<open>f"'{project_key}'"\<close>\<close>
  "sq s = [CHR 0x27] @ s @ [CHR 0x27]"

definition digit_char :: "nat \<Rightarrow> char" where
  "digit_char d = char_of (48 + d)"

function str_nat :: "nat \<Rightarrow> string" where
  \<comment> \<open>\<^verbatim>\<open>str(n)\<close> for a non-negative integer\<close>
  "str_nat n = (if n < 10 then [digit_char n] else str_nat (n div 10) @ [digit_char (n mod 10)])"
  by pat_completeness auto
termination
  by (relation "measure id") auto

declare str_nat.simps [simp del]

fun split_acc :: "char \<Rightarrow> string \<Rightarrow> string \<Rightarrow> string list" where
  \<comment> \<open>\<^verbatim>\<open>s.split(sep)\<close>, with the piece read so far kept reversed in \<open>acc\<close>\<close>
  "split_acc sep acc [] = [rev acc]"
| "split_acc sep acc (c # cs) =
     (if c = sep then rev acc # split_acc sep [] cs else split_acc sep (c # acc) cs)"

definition split_str :: "string \<Rightarrow> char \<Rightarrow> string list" where
  "split_str s sep = split_acc sep [] s"

fun join_str :: "string \<Rightarrow> string list \<Rightarrow> string" where
  \<comment> \<open>\<^verbatim>\<open>sep.join(xs)\<close>\<close>
  "join_str sep [] = []"
| "join_str sep [x] = x"
| "join_str sep (x # y # ys) = x @ sep @ join_str sep (y # ys)"

fun truthy :: "json \<Rightarrow> bool" where
  \<comment> \<open>Python's truth value of a parsed JSON value\<close>
  "truthy JNull = False"
| "truthy (JBool b) = b"
| "truthy (JNum n) = (n \<noteq> 0)"
| "truthy (JStr s) = (s \<noteq> [])"
| "truthy (JArr xs) = (xs \<noteq> [])"
| "truthy (JObj kvs) = (kvs \<noteq> [])"

definition raise_for_status :: "response \<Rightarrow> string option" where
  \<comment> \<open>\<^verbatim>\<open>response.raise_for_status()\<close> of the requests library: the message of the
      \<^verbatim>\<open>HTTPError\<close> it raises, or \<open>None\<close> when it returns. Line 44: ``Raises an HTTPError
      for bad responses (4xx or 5xx)''.\<close>
  "raise_for_status r =
     (if 400 \<le> status_code r \<and> status_code r < 500
      then Some (str_nat (status_code r) @ '' Client Error: '' @ reason r
                   @ '' for url: '' @ resp_url r)
      else if 500 \<le> status_code r \<and> status_code r < 600
      then Some (str_nat (status_code r) @ '' Server Error: '' @ reason r
                   @ '' for url: '' @ resp_url r)
      else None)"

subsection \<open>The function\<close>

definition JIRA_URL :: string where
  "JIRA_URL = ''https://issues.apache.org/jira''"

definition make_headers :: "string \<Rightarrow> headers" where
  \<comment> \<open>lines 31 to 34\<close>
  "make_headers token =
     [(''Content-Type'', ''application/json''), (''Authorization'', ''Bearer '' @ token)]"

fun roles_loop :: "(string \<times> json) list \<Rightarrow> (exn + string option) \<times> event list" where
  \<comment> \<open>lines 52 to 56: the \<^verbatim>\<open>for\<close> loop over \<^verbatim>\<open>roles.items()\<close>. It gives the value of
      \<^verbatim>\<open>contributor_role_id\<close> after the loop (\<open>None\<close> as initialised on line 40) and what
      it printed, or the exception of \<^verbatim>\<open>role_url.split\<close>.\<close>
  "roles_loop [] = (Inr None, [])"
| "roles_loop ((role_name, role_url) # rest) =
     (if role_name = ''Contributors''
      then (case role_url of
              JStr u \<Rightarrow>
                (Inr (Some (last (split_str u (CHR ''/'')))),
                 [Print (''Found 'Contributors' role with ID: '' @ last (split_str u (CHR ''/'')))])
            | _ \<Rightarrow> (Inl (AttributeError ''split''), []))
      else roles_loop rest)"

definition role_not_found :: "string \<Rightarrow> (string \<times> json) list \<Rightarrow> event list" where
  \<comment> \<open>lines 59 and 60\<close>
  "role_not_found project_key items =
     [Print (''Error: Could not find a role named 'Contributors' in project ''
        @ sq project_key @ ''.''),
      Print (''Available roles: '' @ join_str '', '' (map fst items))]"

definition find_role :: "string \<Rightarrow> json \<Rightarrow> flow \<times> event list" where
  \<comment> \<open>lines 47 to 61, on the value \<open>roles\<close> that \<^verbatim>\<open>response.json()\<close> returned. Line 58,
      \<^verbatim>\<open>not contributor_role_id\<close>, holds of \<^verbatim>\<open>None\<close> and of the empty string.\<close>
  "find_role project_key roles =
     (if \<not> truthy roles
      then (Return False, [Print ''No roles found for this project.''])
      else (case roles of
              JObj items \<Rightarrow>
                (case roles_loop items of
                   (Inl e, out) \<Rightarrow> (Raise e, out)
                 | (Inr None, out) \<Rightarrow> (Return False, out @ role_not_found project_key items)
                 | (Inr (Some contributor_role_id), out) \<Rightarrow>
                     (if contributor_role_id = []
                      then (Return False, out @ role_not_found project_key items)
                      else (Fallthrough contributor_role_id, out)))
            | _ \<Rightarrow> (Raise (AttributeError ''items''), [])))"

definition project_not_found_line :: "string \<Rightarrow> event" where
  \<comment> \<open>line 66\<close>
  "project_not_found_line project_key =
     Print (''Error: Project with key '' @ sq project_key @ '' not found.'')"

definition auth_issue_line :: event where
  \<comment> \<open>line 68\<close>
  "auth_issue_line =
     Print (''Error: Authentication or Permission issue. Please check your ''
       @ ''Personal Access Token and your account permissions on Jira.'')"

definition roles_http_error :: "string \<Rightarrow> response \<Rightarrow> string \<Rightarrow> event list" where
  \<comment> \<open>lines 63 to 72: the handler of \<^verbatim>\<open>HTTPError\<close> of the first \<^verbatim>\<open>try\<close>; it returns False\<close>
  "roles_http_error project_key r http_err =
     [Print (''HTTP error occurred: '' @ http_err)]
     @ (if status_code r = 404 then [project_not_found_line project_key]
        else if status_code r = 401 \<or> status_code r = 403 then [auth_issue_line]
        else [])
     @ (if resp_text r \<noteq> [] then [Print (''Jira response: '' @ resp_text r)] else [])"

definition roles_url_of :: "string \<Rightarrow> string" where
  \<comment> \<open>line 37\<close>
  "roles_url_of project_key = JIRA_URL @ ''/rest/api/2/project/'' @ project_key @ ''/role''"

definition fetching_line :: "string \<Rightarrow> event" where
  \<comment> \<open>line 38\<close>
  "fetching_line project_key =
     Print (''Fetching roles for project '' @ sq project_key @ '' to find 'Contributors'...'')"

definition fetch_roles :: "network \<Rightarrow> headers \<Rightarrow> string \<Rightarrow> flow \<times> event list" where
  \<comment> \<open>lines 37 to 75\<close>
  "fetch_roles net hdrs project_key =
     (let roles_url = roles_url_of project_key;
          out = [fetching_line project_key, Sent (GET roles_url hdrs)]
      in case net (GET roles_url hdrs) of
           Failed err \<Rightarrow> (Return False, out @ [Print (''An error occurred: '' @ err)])
         | Responded r \<Rightarrow>
             (case raise_for_status r of
                Some http_err \<Rightarrow> (Return False, out @ roles_http_error project_key r http_err)
              | None \<Rightarrow>
                  (case resp_json r of
                     Inl (JSONDecodeError err) \<Rightarrow>
                       (Return False, out @ [Print (''An error occurred: '' @ err)])
                   | Inl (OtherError e) \<Rightarrow> (Raise e, out)
                   | Inr roles \<Rightarrow>
                       (case find_role project_key roles of (fl, out') \<Rightarrow> (fl, out @ out')))))"

definition add_http_error :: "response \<Rightarrow> string \<Rightarrow> event list" where
  \<comment> \<open>lines 90 to 97: the handler of \<^verbatim>\<open>HTTPError\<close> of the second \<^verbatim>\<open>try\<close>; it returns False\<close>
  "add_http_error r http_err =
     [Print (''HTTP error occurred: '' @ http_err),
      Print (''Error: Failed to add user. Status Code: '' @ str_nat (status_code r)),
      Print ''Please check the user, project key, and role ID.'']
     @ (if resp_text r \<noteq> [] then [Print (''Jira response: '' @ resp_text r)] else [])"

definition add_user_url_of :: "string \<Rightarrow> string \<Rightarrow> string" where
  \<comment> \<open>line 78\<close>
  "add_user_url_of project_key contributor_role_id =
     JIRA_URL @ ''/rest/api/2/project/'' @ project_key @ ''/role/'' @ contributor_role_id"

definition adding_line :: "string \<Rightarrow> string \<Rightarrow> string \<Rightarrow> event" where
  \<comment> \<open>line 81\<close>
  "adding_line user_to_add project_key contributor_role_id =
     Print ([CHR 0x0A] @ ''Adding user '' @ sq user_to_add
       @ '' to 'Contributors' role (ID: '' @ contributor_role_id
       @ '') in project '' @ sq project_key @ ''...'')"

definition add_user :: "network \<Rightarrow> headers \<Rightarrow> string \<Rightarrow> string \<Rightarrow> string \<Rightarrow> bool \<times> event list" where
  \<comment> \<open>lines 78 to 100\<close>
  "add_user net hdrs user_to_add project_key contributor_role_id =
     (let add_user_url = add_user_url_of project_key contributor_role_id;
          payload = JObj [(''user'', JArr [JStr user_to_add])];
          out = [adding_line user_to_add project_key contributor_role_id,
                 Sent (POST add_user_url payload hdrs)]
      in case net (POST add_user_url payload hdrs) of
           Failed err \<Rightarrow> (False, out @ [Print (''An error occurred: '' @ err)])
         | Responded r \<Rightarrow>
             (case raise_for_status r of
                Some http_err \<Rightarrow> (False, out @ add_http_error r http_err)
              | None \<Rightarrow>
                  (True, out @ [Print (''Successfully added user '' @ sq user_to_add
                                  @ '' to the 'Contributors' role.'')])))"

definition missing_token :: "outcome \<times> event list" where
  \<comment> \<open>lines 27 to 29\<close>
  "missing_token =
     (Returned False,
      [Print ''Error: JIRA_API_TOKEN environment variable is not set.'',
       Print ''Please export your Personal Access Token before running the script.''])"

definition run_with_token :: "network \<Rightarrow> string \<Rightarrow> string \<Rightarrow> string \<Rightarrow> outcome \<times> event list" where
  \<comment> \<open>lines 31 to 100\<close>
  "run_with_token net token user_to_add project_key =
     (let hdrs = make_headers token
      in case fetch_roles net hdrs project_key of
           (Return b, out) \<Rightarrow> (Returned b, out)
         | (Raise e, out) \<Rightarrow> (Raised e, out)
         | (Fallthrough contributor_role_id, out) \<Rightarrow>
             (case add_user net hdrs user_to_add project_key contributor_role_id of
                (b, out') \<Rightarrow> (Returned b, out @ out')))"

definition add_user_to_jira_role ::
  "network \<Rightarrow> string option \<Rightarrow> string \<Rightarrow> string \<Rightarrow> outcome \<times> event list" where
  \<comment> \<open>lines 12 to 100. \<open>JIRA_API_TOKEN\<close> is the module constant of line 10, the value of
      \<^verbatim>\<open>os.environ.get\<close>: \<open>None\<close> when the variable is unset. Line 26,
      \<^verbatim>\<open>not JIRA_API_TOKEN\<close>, holds of \<^verbatim>\<open>None\<close> and of the empty string.\<close>
  "add_user_to_jira_role net JIRA_API_TOKEN user_to_add project_key =
     (case JIRA_API_TOKEN of
        None \<Rightarrow> missing_token
      | Some token \<Rightarrow>
          (if token = [] then missing_token
           else run_with_token net token user_to_add project_key))"

subsection \<open>Observations on a run\<close>

fun is_sent :: "event \<Rightarrow> bool" where
  "is_sent (Sent _) = True"
| "is_sent (Print _) = False"

fun is_post :: "event \<Rightarrow> bool" where
  "is_post (Sent (POST _ _ _)) = True"
| "is_post _ = False"

subsection \<open>Example trackers\<close>

definition hdds_roles :: json where
  "hdds_roles = JObj [(''Contributors'', JStr ''.../role/777''), (''Developers'', JStr ''.../role/1'')]"

definition ok_response :: "json \<Rightarrow> response" where
  \<comment> \<open>an answer 200 to the GET for project HDDS, with the body \<open>j\<close>\<close>
  "ok_response j = \<lparr>status_code = 200, reason = ''OK'', resp_url = roles_url_of ''HDDS'',
     resp_text = [], resp_json = Inr j\<rparr>"

definition tracker :: "http_result \<Rightarrow> http_result \<Rightarrow> network" where
  \<comment> \<open>a tracker that answers every GET with \<open>g\<close> and every POST with \<open>p\<close>\<close>
  "tracker g p req = (case req of GET _ _ \<Rightarrow> g | POST _ _ _ \<Rightarrow> p)"


definition no_content :: response where
  "no_content = \<lparr>status_code = 204, reason = ''No Content'',
     resp_url = add_user_url_of ''HDDS'' ''777'', resp_text = [],
     resp_json = Inl (JSONDecodeError ''Expecting value'')\<rparr>"

definition too_deep :: response where
  \<comment> \<open>an answer 200 to the GET for project HDDS whose body the JSON decoder gives up on\<close>
  "too_deep = \<lparr>status_code = 200, reason = ''OK'', resp_url = roles_url_of ''HDDS'',
     resp_text = replicate 100000 (CHR ''[''),
     resp_json = Inl (OtherError (RecursionError ''maximum recursion depth exceeded''))\<rparr>"

definition not_modified :: response where
  "not_modified = \<lparr>status_code = 304, reason = ''Not Modified'',
     resp_url = add_user_url_of ''HDDS'' ''777'', resp_text = [],
     resp_json = Inl (JSONDecodeError ''Expecting value'')\<rparr>"

definition already_member :: response where
  \<open>already_member = \<lparr>status_code = 400, reason = ''Bad Request'',
     resp_url = add_user_url_of ''HDDS'' ''777'',
     resp_text = ''{"errorMessages":["alice already a member"]}'',
     resp_json = Inr (JObj [(''errorMessages'', JArr [JStr ''alice already a member''])])\<rparr>\<close>

section \<open>Properties\<close>

subsection \<open>Splitting a string\<close>

lemma split_acc_nonempty: "split_acc sep acc s \<noteq> []"
  by (induction s arbitrary: acc) auto

lemma takeWhile_upto_sep:
  "sep \<notin> set xs \<Longrightarrow> takeWhile (\<lambda>c. c \<noteq> sep) (xs @ sep # ys) = xs"
  by (induction xs) auto

lemma takeWhile_sep_inside:
  "sep \<in> set xs \<Longrightarrow> takeWhile (\<lambda>c. c \<noteq> sep) (xs @ ys) = takeWhile (\<lambda>c. c \<noteq> sep) xs"
  by (induction xs) auto

lemma takeWhile_no_sep:
  "sep \<notin> set xs \<Longrightarrow> takeWhile (\<lambda>c. c \<noteq> sep) xs = xs"
  by (induction xs) auto

lemma last_split_acc:
  "last (split_acc sep acc s) =
     (if sep \<in> set s then rev (takeWhile (\<lambda>c. c \<noteq> sep) (rev s)) else rev acc @ s)"
proof (induction s arbitrary: acc)
  case Nil
  show ?case by simp
next
  case (Cons c cs)
  show ?case
  proof (cases "c = sep")
    case True
    then show ?thesis
      using Cons.IH [of "[]"]
      by (simp add: split_acc_nonempty takeWhile_upto_sep takeWhile_sep_inside)
  next
    case False
    then show ?thesis
      using Cons.IH [of "c # acc"] by (simp add: takeWhile_sep_inside)
  qed
qed

lemma last_split_str:
  "last (split_str u sep) = rev (takeWhile (\<lambda>c. c \<noteq> sep) (rev u))"
  by (simp add: split_str_def last_split_acc takeWhile_no_sep)

lemma after_last_sep:
  "sep \<notin> set suf \<Longrightarrow> rev (takeWhile (\<lambda>c. c \<noteq> sep) (rev (pre @ sep # suf))) = suf"
  by (simp add: takeWhile_upto_sep)

lemma roles_loop_found:
  "map_of items ''Contributors'' = Some (JStr u) \<Longrightarrow>
   roles_loop items =
     (Inr (Some (last (split_str u (CHR ''/'')))),
      [Print (''Found 'Contributors' role with ID: '' @ last (split_str u (CHR ''/'')))])"
  by (induction items rule: roles_loop.induct) (auto split: if_splits)

lemma roles_loop_absent:
  "map_of items ''Contributors'' = None \<Longrightarrow> roles_loop items = (Inr None, [])"
  by (induction items rule: roles_loop.induct) (auto split: if_splits)

lemma roles_loop_no_sent: "filter is_sent (snd (roles_loop items)) = []"
  by (induction items rule: roles_loop.induct) (auto split: json.splits)

subsection \<open>The blocks of the function\<close>

lemma raise_for_status_None:
  "raise_for_status r = None \<longleftrightarrow> status_code r < 400 \<or> 600 \<le> status_code r"
  by (auto simp: raise_for_status_def)

lemma raise_for_status_Some:
  "400 \<le> status_code r \<Longrightarrow> status_code r < 600 \<Longrightarrow> \<exists>msg. raise_for_status r = Some msg"
  by (auto simp: raise_for_status_def)

lemma fetch_roles_parsed:
  assumes "net (GET (roles_url_of project_key) hdrs) = Responded r"
    and "status_code r < 400 \<or> 600 \<le> status_code r"
    and "resp_json r = Inr roles"
  shows "fetch_roles net hdrs project_key =
           (fst (find_role project_key roles),
            [fetching_line project_key, Sent (GET (roles_url_of project_key) hdrs)]
              @ snd (find_role project_key roles))"
  using assms raise_for_status_None [of r]
  by (simp add: fetch_roles_def Let_def split: prod.splits)

lemma find_role_no_sent: "filter is_sent (snd (find_role project_key roles)) = []"
proof (cases roles)
  case (JObj items)
  then show ?thesis
    using roles_loop_no_sent [of items]
    by (auto simp: find_role_def role_not_found_def split: prod.splits sum.splits option.splits)
qed (simp_all add: find_role_def)

lemma roles_http_error_no_sent: "filter is_sent (roles_http_error project_key r msg) = []"
  by (simp add: roles_http_error_def project_not_found_line_def auth_issue_line_def)

lemma fetch_roles_sent:
  "filter is_sent (snd (fetch_roles net hdrs project_key)) =
     [Sent (GET (roles_url_of project_key) hdrs)]"
proof (cases "net (GET (roles_url_of project_key) hdrs)")
  case (Failed err)
  then show ?thesis by (simp add: fetch_roles_def fetching_line_def)
next
  case (Responded r)
  show ?thesis
  proof (cases "raise_for_status r")
    case (Some msg)
    with Responded show ?thesis
      by (simp add: fetch_roles_def fetching_line_def roles_http_error_no_sent)
  next
    case None
    show ?thesis
    proof (cases "resp_json r")
      case (Inl err)
      with Responded None show ?thesis
        by (cases err) (simp_all add: fetch_roles_def fetching_line_def)
    next
      case (Inr roles)
      obtain fl out' where f: "find_role project_key roles = (fl, out')"
        by (cases "find_role project_key roles")
      with find_role_no_sent [of project_key roles] have "filter is_sent out' = []" by simp
      with Responded None Inr f show ?thesis by (simp add: fetch_roles_def fetching_line_def)
    qed
  qed
qed

lemma is_post_sent: "is_post e \<Longrightarrow> is_sent e"
  by (cases e) auto

lemma no_sent_no_post: "filter is_sent es = [] \<Longrightarrow> filter is_post es = []"
  by (auto simp: filter_empty_conv dest: is_post_sent)

lemma fetch_roles_no_post: "filter is_post (snd (fetch_roles net hdrs project_key)) = []"
proof -
  have "filter is_post (filter is_sent (snd (fetch_roles net hdrs project_key))) = []"
    by (simp add: fetch_roles_sent)
  moreover have "filter is_post (filter is_sent es) = filter is_post es" for es
    by (induction es) (auto dest: is_post_sent)
  ultimately show ?thesis by simp
qed

lemma add_http_error_no_sent: "filter is_sent (add_http_error r msg) = []"
  by (simp add: add_http_error_def)

lemma add_user_posts:
  "filter is_post (snd (add_user net hdrs user_to_add project_key rid)) =
     [Sent (POST (add_user_url_of project_key rid) (JObj [(''user'', JArr [JStr user_to_add])]) hdrs)]"
  using no_sent_no_post [OF add_http_error_no_sent]
  by (auto simp: add_user_def Let_def adding_line_def
      split: http_result.splits option.splits)

lemma run_with_token_posts:
  "length (filter is_post (snd (run_with_token net token user_to_add project_key))) \<le> 1"
proof -
  obtain fl out where f: "fetch_roles net (make_headers token) project_key = (fl, out)"
    by (cases "fetch_roles net (make_headers token) project_key")
  with fetch_roles_no_post [of net "make_headers token" project_key]
  have out: "filter is_post out = []" by simp
  show ?thesis
  proof (cases fl)
    case (Return b)
    with f out show ?thesis by (simp add: run_with_token_def)
  next
    case (Raise e)
    with f out show ?thesis by (simp add: run_with_token_def)
  next
    case (Fallthrough rid)
    obtain b out' where a: "add_user net (make_headers token) user_to_add project_key rid = (b, out')"
      by (cases "add_user net (make_headers token) user_to_add project_key rid")
    with add_user_posts [of net "make_headers token" user_to_add project_key rid]
    have "length (filter is_post out') = 1" by simp
    with f out Fallthrough a show ?thesis by (simp add: run_with_token_def)
  qed
qed

lemma find_role_no_mapping:
  assumes "truthy roles" and "\<And>items. roles \<noteq> JObj items"
  shows "find_role project_key roles = (Raise (AttributeError ''items''), [])"
proof (cases roles)
  case (JObj items)
  with assms(2) show ?thesis by blast
qed (use assms(1) in \<open>simp_all add: find_role_def\<close>)

lemma find_role_found:
  assumes "map_of items ''Contributors'' = Some (JStr (pre @ CHR ''/'' # suf))"
    and "CHR ''/'' \<notin> set suf"
  shows "find_role project_key (JObj items) =
           (if suf = []
            then (Return False,
                  Print (''Found 'Contributors' role with ID: '') # role_not_found project_key items)
            else (Fallthrough suf, [Print (''Found 'Contributors' role with ID: '' @ suf)]))"
proof -
  have "last (split_str (pre @ CHR ''/'' # suf) (CHR ''/'')) = suf"
    unfolding last_split_str using assms(2) by (rule after_last_sep)
  moreover have "items \<noteq> []"
    using assms(1) by auto
  ultimately show ?thesis
    using roles_loop_found [OF assms(1)] by (simp add: find_role_def)
qed

lemma find_role_absent:
  assumes "map_of items ''Contributors'' = None" and "items \<noteq> []"
  shows "find_role project_key (JObj items) = (Return False, role_not_found project_key items)"
  using roles_loop_absent [OF assms(1)] assms(2) by (simp add: find_role_def)

lemma run_return:
  assumes "token \<noteq> []"
    and "net (GET (roles_url_of project_key) (make_headers token)) = Responded r"
    and "status_code r < 400 \<or> 600 \<le> status_code r"
    and "resp_json r = Inr roles"
    and "find_role project_key roles = (Return b, out)"
  shows "add_user_to_jira_role net (Some token) user_to_add project_key =
           (Returned b,
            [fetching_line project_key, Sent (GET (roles_url_of project_key) (make_headers token))]
              @ out)"
  using assms fetch_roles_parsed [of net project_key "make_headers token" r roles]
  by (simp add: add_user_to_jira_role_def run_with_token_def Let_def)

lemma run_fallthrough:
  assumes "token \<noteq> []"
    and "net (GET (roles_url_of project_key) (make_headers token)) = Responded r"
    and "status_code r < 400 \<or> 600 \<le> status_code r"
    and "resp_json r = Inr roles"
    and "find_role project_key roles = (Fallthrough rid, out)"
  shows "add_user_to_jira_role net (Some token) user_to_add project_key =
           (Returned (fst (add_user net (make_headers token) user_to_add project_key rid)),
            [fetching_line project_key, Sent (GET (roles_url_of project_key) (make_headers token))]
              @ out @ snd (add_user net (make_headers token) user_to_add project_key rid))"
  using assms fetch_roles_parsed [of net project_key "make_headers token" r roles]
  by (simp add: add_user_to_jira_role_def run_with_token_def Let_def split: prod.splits)

lemma add_user_ok:
  assumes "net (POST (add_user_url_of project_key rid) (JObj [(''user'', JArr [JStr user_to_add])]) hdrs)
             = Responded r"
    and "status_code r < 400 \<or> 600 \<le> status_code r"
  shows "fst (add_user net hdrs user_to_add project_key rid) = True"
  using assms raise_for_status_None [of r]
  by (simp add: add_user_def)

lemma add_user_http_error:
  assumes "net (POST (add_user_url_of project_key rid) (JObj [(''user'', JArr [JStr user_to_add])]) hdrs)
             = Responded r"
    and "400 \<le> status_code r" and "status_code r < 600"
  shows "\<exists>msg. add_user net hdrs user_to_add project_key rid =
           (False, [adding_line user_to_add project_key rid,
                    Sent (POST (add_user_url_of project_key rid)
                            (JObj [(''user'', JArr [JStr user_to_add])]) hdrs)]
                   @ add_http_error r msg)"
  using assms(1) raise_for_status_Some [OF assms(2,3)]
  by (auto simp: add_user_def)

lemma run_http_error:
  assumes "token \<noteq> []"
    and "net (GET (roles_url_of project_key) (make_headers token)) = Responded r"
    and "400 \<le> status_code r" and "status_code r < 600"
  shows "\<exists>msg. add_user_to_jira_role net (Some token) user_to_add project_key =
           (Returned False,
            [fetching_line project_key, Sent (GET (roles_url_of project_key) (make_headers token))]
              @ roles_http_error project_key r msg)"
  using assms(1,2) raise_for_status_Some [OF assms(3,4)]
  by (auto simp: add_user_to_jira_role_def run_with_token_def fetch_roles_def Let_def)

lemma run_request_failed:
  assumes "token \<noteq> []"
    and "net (GET (roles_url_of project_key) (make_headers token)) = Failed err"
  shows "add_user_to_jira_role net (Some token) user_to_add project_key =
           (Returned False,
            [fetching_line project_key, Sent (GET (roles_url_of project_key) (make_headers token)),
             Print (''An error occurred: '' @ err)])"
  using assms
  by (simp add: add_user_to_jira_role_def run_with_token_def fetch_roles_def Let_def)

lemma run_json_failed:
  assumes "token \<noteq> []"
    and "net (GET (roles_url_of project_key) (make_headers token)) = Responded r"
    and "status_code r < 400 \<or> 600 \<le> status_code r"
    and "resp_json r = Inl (JSONDecodeError err)"
  shows "add_user_to_jira_role net (Some token) user_to_add project_key =
           (Returned False,
            [fetching_line project_key, Sent (GET (roles_url_of project_key) (make_headers token)),
             Print (''An error occurred: '' @ err)])"
  using assms raise_for_status_None [of r]
  by (simp add: add_user_to_jira_role_def run_with_token_def fetch_roles_def Let_def)

lemma not_found_line_in_handler:
  "project_not_found_line project_key \<in> set (roles_http_error project_key r msg)
     \<longleftrightarrow> status_code r = 404"
  by (simp add: roles_http_error_def project_not_found_line_def auth_issue_line_def sq_def)

lemma auth_line_in_handler:
  "auth_issue_line \<in> set (roles_http_error project_key r msg)
     \<longleftrightarrow> status_code r = 401 \<or> status_code r = 403"
  by (simp add: roles_http_error_def project_not_found_line_def auth_issue_line_def sq_def)

lemma post_in_events:
  assumes "Sent (POST url body hdrs) \<in> set es" and "filter is_post es = [e]"
  shows "e = Sent (POST url body hdrs)"
proof -
  have "Sent (POST url body hdrs) \<in> set (filter is_post es)"
    using assms(1) by simp
  then show ?thesis
    unfolding assms(2) by simp
qed

lemma post_not_in_events:
  assumes "filter is_post es = []"
  shows "Sent (POST url body hdrs) \<notin> set es"
proof
  assume "Sent (POST url body hdrs) \<in> set es"
  then have "Sent (POST url body hdrs) \<in> set (filter is_post es)" by simp
  then show False unfolding assms by simp
qed

lemma run_post_sent:
  assumes "Sent (POST url body hdrs) \<in> set (snd (add_user_to_jira_role net tok user_to_add project_key))"
  shows "\<exists>token rid out. tok = Some token \<and> token \<noteq> []
           \<and> fetch_roles net (make_headers token) project_key = (Fallthrough rid, out)
           \<and> url = add_user_url_of project_key rid
           \<and> body = JObj [(''user'', JArr [JStr user_to_add])]
           \<and> hdrs = make_headers token"
proof (cases tok)
  case None
  with assms show ?thesis by (simp add: add_user_to_jira_role_def missing_token_def)
next
  case (Some token)
  show ?thesis
  proof (cases "token = []")
    case True
    with Some assms show ?thesis by (simp add: add_user_to_jira_role_def missing_token_def)
  next
    case False
    obtain fl out where f: "fetch_roles net (make_headers token) project_key = (fl, out)"
      by (cases "fetch_roles net (make_headers token) project_key")
    with fetch_roles_no_post [of net "make_headers token" project_key]
    have "filter is_post out = []" by simp
    then have out: "Sent (POST url body hdrs) \<notin> set out" by (rule post_not_in_events)
    show ?thesis
    proof (cases fl)
      case (Return b)
      with Some False f out assms show ?thesis
        by (simp add: add_user_to_jira_role_def run_with_token_def)
    next
      case (Raise e)
      with Some False f out assms show ?thesis
        by (simp add: add_user_to_jira_role_def run_with_token_def)
    next
      case (Fallthrough rid)
      obtain b out' where a: "add_user net (make_headers token) user_to_add project_key rid = (b, out')"
        by (cases "add_user net (make_headers token) user_to_add project_key rid")
      with Some False f Fallthrough out assms have "Sent (POST url body hdrs) \<in> set out'"
        by (simp add: add_user_to_jira_role_def run_with_token_def)
      moreover have "filter is_post out' =
          [Sent (POST (add_user_url_of project_key rid) (JObj [(''user'', JArr [JStr user_to_add])])
                   (make_headers token))]"
        using add_user_posts [of net "make_headers token" user_to_add project_key rid] a by simp
      ultimately have "Sent (POST (add_user_url_of project_key rid)
          (JObj [(''user'', JArr [JStr user_to_add])]) (make_headers token)) = Sent (POST url body hdrs)"
        by (rule post_in_events)
      with Some False f Fallthrough show ?thesis by simp
    qed
  qed
qed

text \<open>
  What the function reports when the fetch of the roles fails in a way its handlers
  know, with the token set. In each case it returns False and sends no POST.
  \<^item> The GET is answered with a status from 400 to 599. The line of line 66 (project not
    found) is printed exactly when the status is 404, the line of line 68
    (authentication or permission) exactly when it is 401 or 403.
  \<^item> \<^verbatim>\<open>requests.get\<close> raises a \<^verbatim>\<open>RequestException\<close> (no connection, timeout). The report
    is the one line \<^verbatim>\<open>An error occurred:\<close> with the message of the exception.
  \<^item> The body of the answer is not JSON, so that \<^verbatim>\<open>response.json()\<close> raises
    \<^verbatim>\<open>JSONDecodeError\<close>. The report is the same one line.
\<close>

lemma fetch_failure_report:
  assumes "token \<noteq> []"
  shows "(\<forall>r. net (GET (roles_url_of project_key) (make_headers token)) = Responded r
              \<and> 400 \<le> status_code r \<and> status_code r < 600 \<longrightarrow>
            fst (add_user_to_jira_role net (Some token) user_to_add project_key) = Returned False
          \<and> filter is_post (snd (add_user_to_jira_role net (Some token) user_to_add project_key)) = []
          \<and> (project_not_found_line project_key
                \<in> set (snd (add_user_to_jira_role net (Some token) user_to_add project_key))
              \<longleftrightarrow> status_code r = 404)
          \<and> (auth_issue_line
                \<in> set (snd (add_user_to_jira_role net (Some token) user_to_add project_key))
              \<longleftrightarrow> status_code r = 401 \<or> status_code r = 403))
       \<and> (\<forall>err. net (GET (roles_url_of project_key) (make_headers token)) = Failed err \<longrightarrow>
            add_user_to_jira_role net (Some token) user_to_add project_key =
              (Returned False,
               [fetching_line project_key,
                Sent (GET (roles_url_of project_key) (make_headers token)),
                Print (''An error occurred: '' @ err)]))
       \<and> (\<forall>r err. net (GET (roles_url_of project_key) (make_headers token)) = Responded r
              \<and> (status_code r < 400 \<or> 600 \<le> status_code r) \<and> resp_json r = Inl (JSONDecodeError err) \<longrightarrow>
            add_user_to_jira_role net (Some token) user_to_add project_key =
              (Returned False,
               [fetching_line project_key,
                Sent (GET (roles_url_of project_key) (make_headers token)),
                Print (''An error occurred: '' @ err)]))"
proof (intro conjI allI impI)
  fix r
  assume a: "net (GET (roles_url_of project_key) (make_headers token)) = Responded r
               \<and> 400 \<le> status_code r \<and> status_code r < 600"
  then obtain msg where run:
    "add_user_to_jira_role net (Some token) user_to_add project_key =
       (Returned False,
        [fetching_line project_key, Sent (GET (roles_url_of project_key) (make_headers token))]
          @ roles_http_error project_key r msg)"
    using run_http_error [where net = net, OF assms] by blast
  show "fst (add_user_to_jira_role net (Some token) user_to_add project_key) = Returned False"
    unfolding run by simp
  show "filter is_post (snd (add_user_to_jira_role net (Some token) user_to_add project_key)) = []"
    unfolding run
    using no_sent_no_post [OF roles_http_error_no_sent [of project_key r msg]]
    by (simp add: fetching_line_def)
  show "project_not_found_line project_key
          \<in> set (snd (add_user_to_jira_role net (Some token) user_to_add project_key))
        \<longleftrightarrow> status_code r = 404"
    unfolding run using not_found_line_in_handler [of project_key r msg]
    by (simp add: fetching_line_def project_not_found_line_def)
  show "auth_issue_line
          \<in> set (snd (add_user_to_jira_role net (Some token) user_to_add project_key))
        \<longleftrightarrow> status_code r = 401 \<or> status_code r = 403"
    unfolding run using auth_line_in_handler [of project_key r msg]
    by (simp add: fetching_line_def auth_issue_line_def)
next
  fix err
  assume "net (GET (roles_url_of project_key) (make_headers token)) = Failed err"
  from run_request_failed [where net = net, OF assms this]
  show "add_user_to_jira_role net (Some token) user_to_add project_key =
          (Returned False,
           [fetching_line project_key,
            Sent (GET (roles_url_of project_key) (make_headers token)),
            Print (''An error occurred: '' @ err)])" .
next
  fix r err
  assume a: "net (GET (roles_url_of project_key) (make_headers token)) = Responded r
               \<and> (status_code r < 400 \<or> 600 \<le> status_code r) \<and> resp_json r = Inl (JSONDecodeError err)"
  then show "add_user_to_jira_role net (Some token) user_to_add project_key =
          (Returned False,
           [fetching_line project_key,
            Sent (GET (roles_url_of project_key) (make_headers token)),
            Print (''An error occurred: '' @ err)])"
    using run_json_failed [where net = net, OF assms] by blast
qed

section \<open>The claims\<close>

text \<open>
  Claim C1. When the role directory has an entry with the key \<^verbatim>\<open>Contributors\<close> whose value
  is the string \<open>u\<close>, the loop of lines 52 to 56 sets \<^verbatim>\<open>contributor_role_id\<close> to the part
  of \<open>u\<close> after its last \<^verbatim>\<open>/\<close>: to \<open>suf\<close> whenever \<open>u\<close> is \<open>pre\<close>, a \<^verbatim>\<open>/\<close>, and a
  \<open>suf\<close> without \<^verbatim>\<open>/\<close>. When that part is not empty, lines 47 to 61 fall through to the
  write request with it. The first entry with the key counts, which is the only one in
  a Python dict. The witness is the directory of the claim, with the identifier
  \<^verbatim>\<open>10030\<close>.
\<close>

theorem C1_role_id_is_last_segment:
  assumes "map_of items ''Contributors'' = Some (JStr u)"
  shows "fst (roles_loop items) = Inr (Some (rev (takeWhile (\<lambda>c. c \<noteq> CHR ''/'') (rev u))))
       \<and> (\<forall>pre suf. u = pre @ CHR ''/'' # suf \<and> CHR ''/'' \<notin> set suf
             \<longrightarrow> fst (roles_loop items) = Inr (Some suf))
       \<and> (\<forall>pre suf. u = pre @ CHR ''/'' # suf \<and> CHR ''/'' \<notin> set suf \<and> suf \<noteq> []
             \<longrightarrow> fst (find_role project_key (JObj items)) = Fallthrough suf)"
proof -
  have loop: "roles_loop items =
      (Inr (Some (last (split_str u (CHR ''/'')))),
       [Print (''Found 'Contributors' role with ID: '' @ last (split_str u (CHR ''/'')))])"
    using assms by (rule roles_loop_found)
  have seg: "last (split_str u (CHR ''/'')) = rev (takeWhile (\<lambda>c. c \<noteq> CHR ''/'') (rev u))"
    by (rule last_split_str)
  have suffix: "last (split_str u (CHR ''/'')) = suf"
    if "u = pre @ CHR ''/'' # suf" and "CHR ''/'' \<notin> set suf" for pre suf
    using that seg after_last_sep [of "CHR ''/''" suf pre] by simp
  have items: "items \<noteq> []"
    using assms by auto
  have "fst (roles_loop items) = Inr (Some (rev (takeWhile (\<lambda>c. c \<noteq> CHR ''/'') (rev u))))"
    using loop seg by simp
  moreover have "\<forall>pre suf. u = pre @ CHR ''/'' # suf \<and> CHR ''/'' \<notin> set suf
      \<longrightarrow> fst (roles_loop items) = Inr (Some suf)"
    using loop suffix by simp
  moreover have "\<forall>pre suf. u = pre @ CHR ''/'' # suf \<and> CHR ''/'' \<notin> set suf \<and> suf \<noteq> []
      \<longrightarrow> fst (find_role project_key (JObj items)) = Fallthrough suf"
  proof (intro allI impI)
    fix pre suf
    assume a: "u = pre @ CHR ''/'' # suf \<and> CHR ''/'' \<notin> set suf \<and> suf \<noteq> []"
    then have "last (split_str u (CHR ''/'')) = suf" using suffix by blast
    with a loop items show "fst (find_role project_key (JObj items)) = Fallthrough suf"
      by (simp add: find_role_def)
  qed
  ultimately show ?thesis by blast
qed

theorem C1_witness:
  "map_of [(''Contributors'', JStr ''.../role/10030'')] ''Contributors'' = Some (JStr ''.../role/10030'')
   \<and> fst (roles_loop [(''Contributors'', JStr ''.../role/10030'')]) = Inr (Some ''10030'')
   \<and> fst (find_role ''HDDS'' (JObj [(''Contributors'', JStr ''.../role/10030'')])) = Fallthrough ''10030''"
proof -
  have h: "map_of [(''Contributors'', JStr ''.../role/10030'')] ''Contributors''
             = Some (JStr ''.../role/10030'')"
    by simp
  note th = C1_role_id_is_last_segment [OF h, of "''HDDS''"]
  have a: "fst (roles_loop [(''Contributors'', JStr ''.../role/10030'')]) = Inr (Some ''10030'')"
    using th [THEN conjunct2, THEN conjunct1, rule_format, of "''.../role''" "''10030''"] by simp
  have b: "fst (find_role ''HDDS'' (JObj [(''Contributors'', JStr ''.../role/10030'')]))
             = Fallthrough ''10030''"
    using th [THEN conjunct2, THEN conjunct2, rule_format, of "''.../role''" "''10030''"] by simp
  from h a b show ?thesis by blast
qed

text \<open>
  Claim C2. Let the token be set (a non-empty string; the empty one is claim C10), the
  GET be answered with a status outside 400 to 599, and the body be a directory whose
  first \<^verbatim>\<open>Contributors\<close> entry is a string ending in \<^verbatim>\<open>/\<close> and a non-empty \<open>R\<close> without
  \<^verbatim>\<open>/\<close>. Then exactly one POST is among the events; it goes to
  \<^verbatim>\<open>{JIRA_URL}/rest/api/2/project/{project_key}/role/{R}\<close> with the body
  \<^verbatim>\<open>{"user": [user_to_add]}\<close> and the headers of lines 31 to 34, of which
  \<^verbatim>\<open>Authorization\<close> is \<^verbatim>\<open>Bearer\<close> and the token; and when that POST is answered with a
  status from 200 to 299, the function returns True. The witness is the run for project
  HDDS, user alice, role 777 and the answer 204.
\<close>

theorem C2_one_post_then_success:
  assumes "token \<noteq> []"
    and "net (GET (roles_url_of project_key) (make_headers token)) = Responded r"
    and "status_code r < 400 \<or> 600 \<le> status_code r"
    and "resp_json r = Inr (JObj items)"
    and "map_of items ''Contributors'' = Some (JStr (pre @ CHR ''/'' # R))"
    and "R \<noteq> []" and "CHR ''/'' \<notin> set R"
  shows "filter is_post (snd (add_user_to_jira_role net (Some token) user_to_add project_key)) =
           [Sent (POST (JIRA_URL @ ''/rest/api/2/project/'' @ project_key @ ''/role/'' @ R)
                    (JObj [(''user'', JArr [JStr user_to_add])]) (make_headers token))]
       \<and> map_of (make_headers token) ''Authorization'' = Some (''Bearer '' @ token)
       \<and> (\<forall>r'. net (POST (JIRA_URL @ ''/rest/api/2/project/'' @ project_key @ ''/role/'' @ R)
                     (JObj [(''user'', JArr [JStr user_to_add])]) (make_headers token)) = Responded r'
                 \<and> 200 \<le> status_code r' \<and> status_code r' < 300
             \<longrightarrow> fst (add_user_to_jira_role net (Some token) user_to_add project_key) = Returned True)"
proof -
  let ?hdrs = "make_headers token"
  let ?found = "[Print (''Found 'Contributors' role with ID: '' @ R)]"
  have url: "add_user_url_of project_key R =
               JIRA_URL @ ''/rest/api/2/project/'' @ project_key @ ''/role/'' @ R"
    by (simp add: add_user_url_of_def)
  have "find_role project_key (JObj items) = (Fallthrough R, ?found)"
    using find_role_found [OF assms(5,7)] assms(6) by simp
  from run_fallthrough [where net = net, OF assms(1,2,3,4) this]
  have run: "add_user_to_jira_role net (Some token) user_to_add project_key =
      (Returned (fst (add_user net ?hdrs user_to_add project_key R)),
       [fetching_line project_key, Sent (GET (roles_url_of project_key) ?hdrs)]
         @ ?found @ snd (add_user net ?hdrs user_to_add project_key R))" .
  have posts: "filter is_post (snd (add_user_to_jira_role net (Some token) user_to_add project_key)) =
      [Sent (POST (add_user_url_of project_key R) (JObj [(''user'', JArr [JStr user_to_add])]) ?hdrs)]"
    unfolding run using add_user_posts [of net ?hdrs user_to_add project_key R]
    by (simp add: fetching_line_def)
  have auth: "map_of ?hdrs ''Authorization'' = Some (''Bearer '' @ token)"
    by (simp add: make_headers_def)
  have ok: "fst (add_user_to_jira_role net (Some token) user_to_add project_key) = Returned True"
    if "net (POST (add_user_url_of project_key R) (JObj [(''user'', JArr [JStr user_to_add])]) ?hdrs)
          = Responded r'"
      and "200 \<le> status_code r'" and "status_code r' < 300" for r'
  proof -
    from that(3) have "status_code r' < 400 \<or> 600 \<le> status_code r'" by simp
    from add_user_ok [where net = net, OF that(1) this] show ?thesis unfolding run by simp
  qed
  from posts auth ok show ?thesis unfolding url by blast
qed

theorem C2_witness:
  "fst (add_user_to_jira_role (tracker (Responded (ok_response hdds_roles)) (Responded no_content))
          (Some ''secret'') ''alice'' ''HDDS'') = Returned True
   \<and> filter is_post (snd (add_user_to_jira_role
          (tracker (Responded (ok_response hdds_roles)) (Responded no_content))
          (Some ''secret'') ''alice'' ''HDDS'')) =
       [Sent (POST ''https://issues.apache.org/jira/rest/api/2/project/HDDS/role/777''
                (JObj [(''user'', JArr [JStr ''alice''])])
                [(''Content-Type'', ''application/json''), (''Authorization'', ''Bearer secret'')])]"
proof -
  let ?net = "tracker (Responded (ok_response hdds_roles)) (Responded no_content)"
  let ?items = "[(''Contributors'', JStr ''.../role/777''), (''Developers'', JStr ''.../role/1'')]"
  have h1: "''secret'' \<noteq> []" by simp
  have h2: "?net (GET (roles_url_of ''HDDS'') (make_headers ''secret''))
              = Responded (ok_response hdds_roles)"
    by (simp add: tracker_def)
  have h3: "status_code (ok_response hdds_roles) < 400 \<or> 600 \<le> status_code (ok_response hdds_roles)"
    by (simp add: ok_response_def)
  have h4: "resp_json (ok_response hdds_roles) = Inr (JObj ?items)"
    by (simp add: ok_response_def hdds_roles_def)
  have h5: "map_of ?items ''Contributors'' = Some (JStr (''.../role'' @ CHR ''/'' # ''777''))"
    by simp
  have h6: "''777'' \<noteq> []" by simp
  have h7: "CHR ''/'' \<notin> set ''777''" by simp
  note th = C2_one_post_then_success
    [where net = ?net and user_to_add = "''alice''", OF h1 h2 h3 h4 h5 h6 h7]
  have post: "?net (POST (JIRA_URL @ ''/rest/api/2/project/'' @ ''HDDS'' @ ''/role/'' @ ''777'')
                 (JObj [(''user'', JArr [JStr ''alice''])]) (make_headers ''secret''))
              = Responded no_content
            \<and> 200 \<le> status_code no_content \<and> status_code no_content < 300"
    by (simp add: tracker_def no_content_def)
  from th [THEN conjunct2, THEN conjunct2, rule_format, OF post]
  have a: "fst (add_user_to_jira_role ?net (Some ''secret'') ''alice'' ''HDDS'') = Returned True" .
  from th [THEN conjunct1]
  have b: "filter is_post (snd (add_user_to_jira_role ?net (Some ''secret'') ''alice'' ''HDDS'')) =
       [Sent (POST ''https://issues.apache.org/jira/rest/api/2/project/HDDS/role/777''
                (JObj [(''user'', JArr [JStr ''alice''])])
                [(''Content-Type'', ''application/json''), (''Authorization'', ''Bearer secret'')])]"
    by (simp add: JIRA_URL_def make_headers_def)
  from a b show ?thesis by blast
qed

text \<open>
  Claim C3. Let the token be set, the GET be answered with a status outside 400 to 599
  and the body be a non-empty directory without the key \<^verbatim>\<open>Contributors\<close>. Then the function
  returns False after the two lines of lines 59 and 60, no POST is among the events, and
  the names it prints after \<^verbatim>\<open>Available roles:\<close> are the keys of the directory, in
  iteration order and joined by a comma and a space.
\<close>

theorem C3_no_contributors_key:
  assumes "token \<noteq> []"
    and "net (GET (roles_url_of project_key) (make_headers token)) = Responded r"
    and "status_code r < 400 \<or> 600 \<le> status_code r"
    and "resp_json r = Inr (JObj items)"
    and "items \<noteq> []"
    and "''Contributors'' \<notin> set (map fst items)"
  shows "add_user_to_jira_role net (Some token) user_to_add project_key =
           (Returned False,
            [fetching_line project_key,
             Sent (GET (roles_url_of project_key) (make_headers token)),
             Print (''Error: Could not find a role named 'Contributors' in project ''
               @ sq project_key @ ''.''),
             Print (''Available roles: '' @ join_str '', '' (map fst items))])
       \<and> filter is_post (snd (add_user_to_jira_role net (Some token) user_to_add project_key)) = []
       \<and> set (map fst items) = dom (map_of items)"
proof -
  have "map_of items ''Contributors'' = None"
    using assms(6) by (simp add: map_of_eq_None_iff)
  from run_return [where net = net, OF assms(1,2,3,4) find_role_absent [OF this assms(5)]]
  have run: "add_user_to_jira_role net (Some token) user_to_add project_key =
      (Returned False,
       [fetching_line project_key, Sent (GET (roles_url_of project_key) (make_headers token))]
         @ role_not_found project_key items)" .
  have "filter is_post (snd (add_user_to_jira_role net (Some token) user_to_add project_key)) = []"
    unfolding run by (simp add: fetching_line_def role_not_found_def)
  moreover have "set (map fst items) = dom (map_of items)"
    by (simp add: dom_map_of_conv_image_fst)
  ultimately show ?thesis
    unfolding run by (simp add: role_not_found_def)
qed

theorem C3_witness:
  "add_user_to_jira_role
     (tracker (Responded (ok_response (JObj [(''Developers'', JStr ''.../role/1''),
                                              (''Administrators'', JStr ''.../role/2'')])))
        (Responded no_content))
     (Some ''secret'') ''alice'' ''HDDS'' =
   (Returned False,
    [fetching_line ''HDDS'',
     Sent (GET (roles_url_of ''HDDS'') (make_headers ''secret'')),
     Print (''Error: Could not find a role named 'Contributors' in project '' @ sq ''HDDS'' @ ''.''),
     Print ''Available roles: Developers, Administrators''])"
proof -
  let ?items = "[(''Developers'', JStr ''.../role/1''), (''Administrators'', JStr ''.../role/2'')]"
  let ?net = "tracker (Responded (ok_response (JObj ?items))) (Responded no_content)"
  have h1: "''secret'' \<noteq> []" by simp
  have h2: "?net (GET (roles_url_of ''HDDS'') (make_headers ''secret''))
              = Responded (ok_response (JObj ?items))"
    by (simp add: tracker_def)
  have h3: "status_code (ok_response (JObj ?items)) < 400
              \<or> 600 \<le> status_code (ok_response (JObj ?items))"
    by (simp add: ok_response_def)
  have h4: "resp_json (ok_response (JObj ?items)) = Inr (JObj ?items)"
    by (simp add: ok_response_def)
  have h5: "?items \<noteq> []" by simp
  have h6: "''Contributors'' \<notin> set (map fst ?items)" by simp
  from C3_no_contributors_key [where net = ?net and user_to_add = "''alice''", OF h1 h2 h3 h4 h5 h6]
  show ?thesis by simp
qed

text \<open>
  Claim C4. Let the token be set, the GET be answered with a status outside 400 to 599
  and the body be the empty directory. Then the function prints
  \<^verbatim>\<open>No roles found for this project.\<close> and returns False, and no POST is among the events.
\<close>

theorem C4_empty_directory:
  assumes "token \<noteq> []"
    and "net (GET (roles_url_of project_key) (make_headers token)) = Responded r"
    and "status_code r < 400 \<or> 600 \<le> status_code r"
    and "resp_json r = Inr (JObj [])"
  shows "add_user_to_jira_role net (Some token) user_to_add project_key =
           (Returned False,
            [fetching_line project_key,
             Sent (GET (roles_url_of project_key) (make_headers token)),
             Print ''No roles found for this project.''])
       \<and> filter is_post (snd (add_user_to_jira_role net (Some token) user_to_add project_key)) = []"
proof -
  have "find_role project_key (JObj []) = (Return False, [Print ''No roles found for this project.''])"
    by (simp add: find_role_def)
  from run_return [where net = net, OF assms(1,2,3,4) this]
  show ?thesis by (simp add: fetching_line_def)
qed

theorem C4_witness:
  "add_user_to_jira_role (tracker (Responded (ok_response (JObj []))) (Responded no_content))
     (Some ''secret'') ''alice'' ''HDDS'' =
   (Returned False,
    [fetching_line ''HDDS'',
     Sent (GET (roles_url_of ''HDDS'') (make_headers ''secret'')),
     Print ''No roles found for this project.''])"
proof -
  let ?net = "tracker (Responded (ok_response (JObj []))) (Responded no_content)"
  have h1: "''secret'' \<noteq> []" by simp
  have h2: "?net (GET (roles_url_of ''HDDS'') (make_headers ''secret''))
              = Responded (ok_response (JObj []))"
    by (simp add: tracker_def)
  have h3: "status_code (ok_response (JObj [])) < 400 \<or> 600 \<le> status_code (ok_response (JObj []))"
    by (simp add: ok_response_def)
  have h4: "resp_json (ok_response (JObj [])) = Inr (JObj [])"
    by (simp add: ok_response_def)
  from C4_empty_directory [where net = ?net and user_to_add = "''alice''", OF h1 h2 h3 h4]
  show ?thesis by simp
qed

text \<open>
  Claim C5. When \<^verbatim>\<open>JIRA_API_TOKEN\<close> is absent, the function prints the two lines of the
  missing-credential report and returns False, and it sends nothing: neither a GET nor
  a POST is among its events.
\<close>

theorem C5_no_request_without_credential:
  "add_user_to_jira_role net None user_to_add project_key =
     (Returned False,
      [Print ''Error: JIRA_API_TOKEN environment variable is not set.'',
       Print ''Please export your Personal Access Token before running the script.''])
   \<and> filter is_sent (snd (add_user_to_jira_role net None user_to_add project_key)) = []"
  by (simp add: add_user_to_jira_role_def missing_token_def)

text \<open>
  Claim C6. The claim says that every failing fetch of the roles, a malformed body
  of the answer among them, ends with the function returning failure. The docstring of
  lines 23 and 24 says the same: the function returns a boolean, False whenever the
  user was not added. For the statuses 400 to 599, for a \<^verbatim>\<open>RequestException\<close> of
  \<^verbatim>\<open>requests.get\<close> and for a body that is not JSON the code does so (the lemma before
  this section). It does not for a body that is JSON of another shape than a mapping
  from names to strings, nor for a body on which the decoder raises another exception:
  no handler of lines 63 and 73 catches what lines 46, 52 and 54 raise then, and the
  exception leaves the function. The theorem runs the function on three such answers
  to the GET for project HDDS, each with the status 200:
  \<^item> the body \<^verbatim>\<open>[1]\<close>: line 52 raises \<^verbatim>\<open>AttributeError\<close> (a list has no \<^verbatim>\<open>items\<close>);
  \<^item> the body \<^verbatim>\<open>{"Contributors": 10030}\<close>: line 54 raises \<^verbatim>\<open>AttributeError\<close> (an integer
    has no \<^verbatim>\<open>split\<close>);
  \<^item> a body nested too deeply: line 46 raises \<^verbatim>\<open>RecursionError\<close>.
\<close>

theorem C6_malformed_body_raises:
  "add_user_to_jira_role (tracker (Responded (ok_response (JArr [JNum 1]))) (Responded no_content))
     (Some ''secret'') ''alice'' ''HDDS'' =
   (Raised (AttributeError ''items''),
    [fetching_line ''HDDS'', Sent (GET (roles_url_of ''HDDS'') (make_headers ''secret''))])
   \<and> add_user_to_jira_role
       (tracker (Responded (ok_response (JObj [(''Contributors'', JNum 10030)])))
          (Responded no_content))
       (Some ''secret'') ''alice'' ''HDDS'' =
     (Raised (AttributeError ''split''),
      [fetching_line ''HDDS'', Sent (GET (roles_url_of ''HDDS'') (make_headers ''secret''))])
   \<and> add_user_to_jira_role (tracker (Responded too_deep) (Responded no_content))
       (Some ''secret'') ''alice'' ''HDDS'' =
     (Raised (RecursionError ''maximum recursion depth exceeded''),
      [fetching_line ''HDDS'', Sent (GET (roles_url_of ''HDDS'') (make_headers ''secret''))])"
  by (simp add: add_user_to_jira_role_def run_with_token_def fetch_roles_def find_role_def
      raise_for_status_def tracker_def ok_response_def too_deep_def)

text \<open>
  Claim C7, amended. The claim says that every answer to the POST with a status outside
  200 to 299 makes the function return False. Line 85 raises for a status from 400 to
  599 only, as the comment of line 44 says, so that an answer 304 is a success (the
  last theorem of this claim). What holds is the claim for the statuses from 400 to
  599: whenever the POST is among the events and is answered with such a status, the
  function returns False, whatever the body says; it prints the status; and when
  \<^verbatim>\<open>response.text\<close> is not empty, the last line it prints is \<^verbatim>\<open>Jira response:\<close> with that
  text. The witness is the answer 400 with the body
  \<^verbatim>\<open>{"errorMessages":["alice already a member"]}\<close>.
\<close>

theorem C7_error_status_on_write_is_failure:
  assumes "Sent (POST url body hdrs) \<in> set (snd (add_user_to_jira_role net tok user_to_add project_key))"
    and "net (POST url body hdrs) = Responded r"
    and "400 \<le> status_code r" and "status_code r < 600"
  shows "fst (add_user_to_jira_role net tok user_to_add project_key) = Returned False
       \<and> Print (''Error: Failed to add user. Status Code: '' @ str_nat (status_code r))
           \<in> set (snd (add_user_to_jira_role net tok user_to_add project_key))
       \<and> (resp_text r \<noteq> [] \<longrightarrow>
            last (snd (add_user_to_jira_role net tok user_to_add project_key))
              = Print (''Jira response: '' @ resp_text r))"
proof -
  from run_post_sent [OF assms(1)] obtain token rid out where
    tok: "tok = Some token" "token \<noteq> []"
    and f: "fetch_roles net (make_headers token) project_key = (Fallthrough rid, out)"
    and eqs: "url = add_user_url_of project_key rid"
      "body = JObj [(''user'', JArr [JStr user_to_add])]" "hdrs = make_headers token"
    by blast
  from assms(2) eqs
  have "net (POST (add_user_url_of project_key rid) (JObj [(''user'', JArr [JStr user_to_add])])
               (make_headers token)) = Responded r"
    by simp
  from add_user_http_error [where net = net, OF this assms(3,4)] obtain msg where
    a: "add_user net (make_headers token) user_to_add project_key rid =
          (False, [adding_line user_to_add project_key rid,
                   Sent (POST (add_user_url_of project_key rid)
                           (JObj [(''user'', JArr [JStr user_to_add])]) (make_headers token))]
                  @ add_http_error r msg)"
    by blast
  have run: "add_user_to_jira_role net tok user_to_add project_key =
      (Returned False,
       out @ [adding_line user_to_add project_key rid,
              Sent (POST (add_user_url_of project_key rid)
                      (JObj [(''user'', JArr [JStr user_to_add])]) (make_headers token))]
           @ add_http_error r msg)"
    using tok f a by (simp add: add_user_to_jira_role_def run_with_token_def)
  show ?thesis
    unfolding run by (simp add: add_http_error_def)
qed

theorem C7_witness:
  \<open>add_user_to_jira_role (tracker (Responded (ok_response hdds_roles)) (Responded already_member))
       (Some ''secret'') ''alice'' ''HDDS'' =
     (Returned False,
      [fetching_line ''HDDS'',
       Sent (GET (roles_url_of ''HDDS'') (make_headers ''secret'')),
       Print ''Found 'Contributors' role with ID: 777'',
       adding_line ''alice'' ''HDDS'' ''777'',
       Sent (POST ''https://issues.apache.org/jira/rest/api/2/project/HDDS/role/777''
               (JObj [(''user'', JArr [JStr ''alice''])])
               [(''Content-Type'', ''application/json''), (''Authorization'', ''Bearer secret'')]),
       Print (''HTTP error occurred: 400 Client Error: Bad Request for url: ''
                @ ''https://issues.apache.org/jira/rest/api/2/project/HDDS/role/777''),
       Print ''Error: Failed to add user. Status Code: 400'',
       Print ''Please check the user, project key, and role ID.'',
       Print ''Jira response: {"errorMessages":["alice already a member"]}''])
   \<and> fst (add_user_to_jira_role (tracker (Responded (ok_response hdds_roles)) (Responded already_member))
       (Some ''secret'') ''alice'' ''HDDS'') = Returned False
   \<and> last (snd (add_user_to_jira_role (tracker (Responded (ok_response hdds_roles)) (Responded already_member))
       (Some ''secret'') ''alice'' ''HDDS''))
       = Print ''Jira response: {"errorMessages":["alice already a member"]}''\<close>
proof -
  let ?net = "tracker (Responded (ok_response hdds_roles)) (Responded already_member)"
  let ?post = "POST ''https://issues.apache.org/jira/rest/api/2/project/HDDS/role/777''
               (JObj [(''user'', JArr [JStr ''alice''])])
               [(''Content-Type'', ''application/json''), (''Authorization'', ''Bearer secret'')]"
  have s400: "str_nat 400 = ''400''"
    by code_simp
  have run: \<open>add_user_to_jira_role ?net (Some ''secret'') ''alice'' ''HDDS'' =
     (Returned False,
      [fetching_line ''HDDS'',
       Sent (GET (roles_url_of ''HDDS'') (make_headers ''secret'')),
       Print ''Found 'Contributors' role with ID: 777'',
       adding_line ''alice'' ''HDDS'' ''777'',
       Sent ?post,
       Print (''HTTP error occurred: 400 Client Error: Bad Request for url: ''
                @ ''https://issues.apache.org/jira/rest/api/2/project/HDDS/role/777''),
       Print ''Error: Failed to add user. Status Code: 400'',
       Print ''Please check the user, project key, and role ID.'',
       Print ''Jira response: {"errorMessages":["alice already a member"]}''])\<close>
    by (simp add: add_user_to_jira_role_def run_with_token_def fetch_roles_def find_role_def
      add_user_def add_http_error_def raise_for_status_def tracker_def ok_response_def
      hdds_roles_def already_member_def split_str_def make_headers_def add_user_url_of_def
      JIRA_URL_def Let_def s400)
  have h1: "Sent ?post \<in> set (snd (add_user_to_jira_role ?net (Some ''secret'') ''alice'' ''HDDS''))"
    unfolding run by simp
  have h2: "?net ?post = Responded already_member" by (simp add: tracker_def)
  have h3: "400 \<le> status_code already_member" by (simp add: already_member_def)
  have h4: "status_code already_member < 600" by (simp add: already_member_def)
  from C7_error_status_on_write_is_failure [where net = ?net, OF h1 h2 h3 h4]
  have \<open>fst (add_user_to_jira_role ?net (Some ''secret'') ''alice'' ''HDDS'') = Returned False
      \<and> last (snd (add_user_to_jira_role ?net (Some ''secret'') ''alice'' ''HDDS''))
           = Print ''Jira response: {"errorMessages":["alice already a member"]}''\<close>
    by (simp add: already_member_def)
  with run show ?thesis by blast
qed

theorem C7_counterexample:
  "tracker (Responded (ok_response hdds_roles)) (Responded not_modified)
     (POST ''https://issues.apache.org/jira/rest/api/2/project/HDDS/role/777''
        (JObj [(''user'', JArr [JStr ''alice''])])
        [(''Content-Type'', ''application/json''), (''Authorization'', ''Bearer secret'')])
     = Responded not_modified
   \<and> status_code not_modified = 304
   \<and> add_user_to_jira_role (tracker (Responded (ok_response hdds_roles)) (Responded not_modified))
       (Some ''secret'') ''alice'' ''HDDS'' =
     (Returned True,
      [fetching_line ''HDDS'',
       Sent (GET (roles_url_of ''HDDS'') (make_headers ''secret'')),
       Print ''Found 'Contributors' role with ID: 777'',
       adding_line ''alice'' ''HDDS'' ''777'',
       Sent (POST ''https://issues.apache.org/jira/rest/api/2/project/HDDS/role/777''
               (JObj [(''user'', JArr [JStr ''alice''])])
               [(''Content-Type'', ''application/json''), (''Authorization'', ''Bearer secret'')]),
       Print (''Successfully added user '' @ sq ''alice'' @ '' to the 'Contributors' role.'')])"
  by (simp add: add_user_to_jira_role_def run_with_token_def fetch_roles_def find_role_def
      add_user_def raise_for_status_def tracker_def ok_response_def hdds_roles_def
      not_modified_def split_str_def make_headers_def add_user_url_of_def JIRA_URL_def Let_def)

text \<open>
  Claim C8. Whatever the tracker answers and whatever the token, the user and the
  project key are, at most one POST is among the events of a call.
\<close>

theorem C8_at_most_one_post:
  "length (filter is_post (snd (add_user_to_jira_role net JIRA_API_TOKEN user_to_add project_key))) \<le> 1"
  using run_with_token_posts
  by (simp add: add_user_to_jira_role_def missing_token_def split: option.splits)

text \<open>
  Claim C9. Let the token be set, the GET be answered with a status outside 400 to 599
  and the body be a directory whose first \<^verbatim>\<open>Contributors\<close> entry is a string ending in
  \<^verbatim>\<open>/\<close>. Then \<^verbatim>\<open>contributor_role_id\<close> is the empty string, line 58 takes it for a missing
  role, and the function prints the lines of lines 59 and 60 (after the line of line
  55, with an empty identifier), returns False and sends no POST.
\<close>

theorem C9_empty_identifier_is_not_found:
  assumes "token \<noteq> []"
    and "net (GET (roles_url_of project_key) (make_headers token)) = Responded r"
    and "status_code r < 400 \<or> 600 \<le> status_code r"
    and "resp_json r = Inr (JObj items)"
    and "map_of items ''Contributors'' = Some (JStr (pre @ ''/''))"
  shows "add_user_to_jira_role net (Some token) user_to_add project_key =
           (Returned False,
            [fetching_line project_key,
             Sent (GET (roles_url_of project_key) (make_headers token)),
             Print ''Found 'Contributors' role with ID: '',
             Print (''Error: Could not find a role named 'Contributors' in project ''
               @ sq project_key @ ''.''),
             Print (''Available roles: '' @ join_str '', '' (map fst items))])
       \<and> filter is_post (snd (add_user_to_jira_role net (Some token) user_to_add project_key)) = []"
proof -
  have "map_of items ''Contributors'' = Some (JStr (pre @ CHR ''/'' # []))"
    using assms(5) by simp
  moreover have "CHR ''/'' \<notin> set []" by simp
  ultimately have "find_role project_key (JObj items) =
      (Return False,
       Print (''Found 'Contributors' role with ID: '') # role_not_found project_key items)"
    using find_role_found [of items pre "[]" project_key] by simp
  from run_return [where net = net, OF assms(1,2,3,4) this]
  show ?thesis by (simp add: fetching_line_def role_not_found_def)
qed

theorem C9_witness:
  "add_user_to_jira_role
     (tracker (Responded (ok_response (JObj [(''Contributors'', JStr ''.../role/'')])))
        (Responded no_content))
     (Some ''secret'') ''alice'' ''HDDS'' =
   (Returned False,
    [fetching_line ''HDDS'',
     Sent (GET (roles_url_of ''HDDS'') (make_headers ''secret'')),
     Print ''Found 'Contributors' role with ID: '',
     Print (''Error: Could not find a role named 'Contributors' in project '' @ sq ''HDDS'' @ ''.''),
     Print ''Available roles: Contributors''])"
proof -
  let ?items = "[(''Contributors'', JStr ''.../role/'')]"
  let ?net = "tracker (Responded (ok_response (JObj ?items))) (Responded no_content)"
  have h1: "''secret'' \<noteq> []" by simp
  have h2: "?net (GET (roles_url_of ''HDDS'') (make_headers ''secret''))
              = Responded (ok_response (JObj ?items))"
    by (simp add: tracker_def)
  have h3: "status_code (ok_response (JObj ?items)) < 400
              \<or> 600 \<le> status_code (ok_response (JObj ?items))"
    by (simp add: ok_response_def)
  have h4: "resp_json (ok_response (JObj ?items)) = Inr (JObj ?items)"
    by (simp add: ok_response_def)
  have h5: "map_of ?items ''Contributors'' = Some (JStr (''.../role'' @ ''/''))" by simp
  from C9_empty_identifier_is_not_found
    [where net = ?net and user_to_add = "''alice''", OF h1 h2 h3 h4 h5]
  show ?thesis by simp
qed

text \<open>
  Claim C10. When \<^verbatim>\<open>JIRA_API_TOKEN\<close> is the empty string, the function does exactly what it
  does when the variable is absent: the same report, the result False, no request.
\<close>

theorem C10_empty_token_as_absent:
  "add_user_to_jira_role net (Some []) user_to_add project_key =
     add_user_to_jira_role net None user_to_add project_key
   \<and> fst (add_user_to_jira_role net (Some []) user_to_add project_key) = Returned False
   \<and> filter is_sent (snd (add_user_to_jira_role net (Some []) user_to_add project_key)) = []"
  by (simp add: add_user_to_jira_role_def missing_token_def)

end
